theory Spec2Isabelle
  imports Main "HOL-Library.AList" "HOL-Library.Multiset"
begin

section \<open>JavaScript strings and regular expressions\<close>

text \<open>
  Strings are lists of characters. The URLs, content types and source tags the extension
  handles are ASCII; \<open>toLowerCase\<close> is modelled on the letters A to Z, which is what it
  does on ASCII text. \<open>null\<close> and \<open>undefined\<close> are both \<open>None\<close>: the code only ever
  tests such values for truthiness. Sizes, timestamps and scores are integers.
\<close>

definition toLowerChar :: "char \<Rightarrow> char" where
  "toLowerChar c =
     (let n = (of_char c :: nat) in if 65 \<le> n \<and> n \<le> 90 then char_of (n + 32) else c)"

definition toUpperChar :: "char \<Rightarrow> char" where
  "toUpperChar c =
     (let n = (of_char c :: nat) in if 97 \<le> n \<and> n \<le> 122 then char_of (n - 32) else c)"

definition toLowerCase :: "string \<Rightarrow> string" where
  "toLowerCase s = map toLowerChar s"

definition startsWith :: "string \<Rightarrow> string \<Rightarrow> bool" where
  "startsWith s p \<longleftrightarrow> take (length p) s = p"

fun str_includes :: "string \<Rightarrow> string \<Rightarrow> bool" where
  "str_includes [] p = (p = [])"
| "str_includes (c # cs) p = (startsWith (c # cs) p \<or> str_includes cs p)"

text \<open>Truthiness of an optional string (\<open>undefined\<close>, \<open>null\<close> and \<open>""\<close> are falsy) and of
  an optional number (\<open>0\<close> is falsy as well).\<close>

fun truthy_str :: "string option \<Rightarrow> bool" where
  "truthy_str None = False"
| "truthy_str (Some s) = (s \<noteq> [])"

fun truthy_num :: "int option \<Rightarrow> bool" where
  "truthy_num None = False"
| "truthy_num (Some n) = (n \<noteq> 0)"

subsection \<open>A backtracking matcher for the regular expressions of the source\<close>

text \<open>
  Character classes: a literal character, a literal letter under the \<open>i\<close> flag, a set
  \<open>[...]\<close>, a negated set \<open>[^...]\<close>, \<open>\d\<close>, \<open>\s\<close> and the dot (any character
  but a line terminator).
\<close>

datatype cc = CChr char | CCi char | CSet "char list" | CNot "char list" | CDig | CSpace | CAny

definition is_digit :: "char \<Rightarrow> bool" where
  "is_digit c \<longleftrightarrow> (let n = (of_char c :: nat) in 48 \<le> n \<and> n \<le> 57)"

definition is_space :: "char \<Rightarrow> bool" where
  "is_space c \<longleftrightarrow> (let n = (of_char c :: nat) in (9 \<le> n \<and> n \<le> 13) \<or> n = 32 \<or> n = 160)"

fun cc_ok :: "cc \<Rightarrow> char \<Rightarrow> bool" where
  "cc_ok (CChr a) c = (c = a)"
| "cc_ok (CCi a) c = (toLowerChar c = toLowerChar a)"
| "cc_ok (CSet as) c = (c \<in> set as)"
| "cc_ok (CNot as) c = (c \<notin> set as)"
| "cc_ok CDig c = is_digit c"
| "cc_ok CSpace c = is_space c"
| "cc_ok CAny c = (c \<noteq> CHR 0x0A \<and> c \<noteq> CHR 0x0D)"

text \<open>
  The patterns of the source only repeat single character classes (\<open>\d*\<close>, \<open>\d+\<close>,
  \<open>.+\<close>, \<open>[^\/]+\<close>), so repetition is a constructor over a class. \<open>Eol\<close> is \<open>$\<close>
  without the \<open>m\<close> flag. A leading \<open>^\<close> is expressed by the function that runs the
  pattern (\<open>re_test_at\<close> against \<open>re_test\<close>).
\<close>

datatype re =
    Atom cc
  | Many cc
  | Many1 cc
  | Seq re re
  | Alt re re
  | Opt re
  | Eol

text \<open>Greedy repetition: the remainders after consuming the longest run first.\<close>

fun many_rests :: "cc \<Rightarrow> string \<Rightarrow> string list" where
  "many_rests c [] = [[]]"
| "many_rests c (x # xs) = (if cc_ok c x then many_rests c xs @ [x # xs] else [x # xs])"

text \<open>
  \<open>rests r s\<close> lists, in the order a backtracking engine tries them, what is left of
  \<open>s\<close> after each way \<open>r\<close> matches a prefix of \<open>s\<close>. The head of the list is the match
  JavaScript reports.
\<close>

fun rests :: "re \<Rightarrow> string \<Rightarrow> string list" where
  "rests (Atom c) s = (case s of [] \<Rightarrow> [] | x # xs \<Rightarrow> if cc_ok c x then [xs] else [])"
| "rests (Many c) s = many_rests c s"
| "rests (Many1 c) s = (case s of [] \<Rightarrow> [] | x # xs \<Rightarrow> if cc_ok c x then many_rests c xs else [])"
| "rests (Seq a b) s = concat (map (rests b) (rests a s))"
| "rests (Alt a b) s = rests a s @ rests b s"
| "rests (Opt a) s = rests a s @ [s]"
| "rests Eol s = (if s = [] then [s] else [])"

definition re_test_at :: "re \<Rightarrow> string \<Rightarrow> bool" where
  "re_test_at r s \<longleftrightarrow> rests r s \<noteq> []"

text \<open>\<open>RegExp.prototype.test\<close> without \<open>^\<close>: a match starting at some position.\<close>

fun re_test :: "re \<Rightarrow> string \<Rightarrow> bool" where
  "re_test r [] = re_test_at r []"
| "re_test r (c # cs) = (re_test_at r (c # cs) \<or> re_test r cs)"

fun lit :: "string \<Rightarrow> re" where
  "lit [] = Many (CSet [])"
| "lit [c] = Atom (CChr c)"
| "lit (c # cs) = Seq (Atom (CChr c)) (lit cs)"

fun lit_ci :: "string \<Rightarrow> re" where
  "lit_ci [] = Many (CSet [])"
| "lit_ci [c] = Atom (CCi c)"
| "lit_ci (c # cs) = Seq (Atom (CCi c)) (lit_ci cs)"

fun alts :: "re list \<Rightarrow> re" where
  "alts [] = Atom (CSet [])"
| "alts [r] = r"
| "alts (r # rs) = Alt r (alts rs)"

text \<open>The tail \<open>(\?|#|$)\<close> shared by the extension patterns.\<close>

definition ext_end :: re where
  "ext_end = alts [Atom (CChr CHR ''?''), Atom (CChr CHR ''#''), Eol]"

section \<open>Configuration and patterns of the background script\<close>

definition MIN_VIDEO_SIZE_BYTES :: int where
  "MIN_VIDEO_SIZE_BYTES = 500000"

definition MAX_RESULTS :: nat where
  "MAX_RESULTS = 5"

definition ENTRY_TTL_MS :: int where
  "ENTRY_TTL_MS = 10 * 60 * 1000"

text \<open>\<^verbatim>\<open>/\.(mp4|m4v|mov|m3u8)(\?|#|$)/i\<close>\<close>

definition VIDEO_EXTENSIONS :: re where
  "VIDEO_EXTENSIONS =
     Seq (Atom (CChr CHR ''.''))
       (Seq (alts [lit_ci ''mp4'', lit_ci ''m4v'', lit_ci ''mov'', lit_ci ''m3u8'']) ext_end)"

text \<open>\<^verbatim>\<open>/\.(ts|m4s|m4a)(\?|#|$)/i\<close>\<close>

definition SEGMENT_EXTENSIONS :: re where
  "SEGMENT_EXTENSIONS =
     Seq (Atom (CChr CHR ''.''))
       (Seq (alts [lit_ci ''ts'', lit_ci ''m4s'', lit_ci ''m4a'']) ext_end)"

text \<open>\<^verbatim>\<open>/^(video\/|application\/(vnd\.apple\.mpegurl|x-mpegurl))/i\<close>, run with
  \<open>re_test_at\<close> for the leading \<open>^\<close>.\<close>

definition VIDEO_CONTENT_TYPES :: re where
  "VIDEO_CONTENT_TYPES =
     Alt (lit_ci ''video/'')
       (Seq (lit_ci ''application/'') (Alt (lit_ci ''vnd.apple.mpegurl'') (lit_ci ''x-mpegurl'')))"

definition sep3 :: cc where
  "sep3 = CSet ''_-/''"

definition sep2 :: cc where
  "sep2 = CSet ''_-''"

text \<open>
  \<^verbatim>\<open>/[_\-/](seg|segment|frag|fragment|chunk|part)[_\-]?\d+/i\<close>,
  \<^verbatim>\<open>/[_\-/]init[_\-]?\d*\.(mp4|m4s)/i\<close>,
  \<^verbatim>\<open>/[&?]range=\d+[_\-]\d+/i\<close>,
  \<^verbatim>\<open>/\/range\/\d+/i\<close>,
  \<^verbatim>\<open>/[&?]bytestart=/i\<close>,
  \<^verbatim>\<open>/[&?]byteend=/i\<close>
\<close>

definition SEGMENT_PATTERNS :: "re list" where
  "SEGMENT_PATTERNS =
    [ Seq (Atom sep3)
        (Seq (alts [lit_ci ''seg'', lit_ci ''segment'', lit_ci ''frag'', lit_ci ''fragment'',
                    lit_ci ''chunk'', lit_ci ''part''])
          (Seq (Opt (Atom sep2)) (Many1 CDig))),
      Seq (Atom sep3)
        (Seq (lit_ci ''init'')
          (Seq (Opt (Atom sep2))
            (Seq (Many CDig)
              (Seq (Atom (CChr CHR ''.'')) (Alt (lit_ci ''mp4'') (lit_ci ''m4s'')))))),
      Seq (Atom (CSet ''&?''))
        (Seq (lit_ci ''range='') (Seq (Many1 CDig) (Seq (Atom sep2) (Many1 CDig)))),
      Seq (lit_ci ''/range/'') (Many1 CDig),
      Seq (Atom (CSet ''&?'')) (lit_ci ''bytestart=''),
      Seq (Atom (CSet ''&?'')) (lit_ci ''byteend='') ]"

text \<open>
  \<^verbatim>\<open>/[_\-/]audio[_\-/]/i\<close>, \<^verbatim>\<open>/audio[_\-]only/i\<close>,
  \<^verbatim>\<open>/\.m4a(\?|#|$)/i\<close>, \<^verbatim>\<open>/\.aac(\?|#|$)/i\<close>
\<close>

definition AUDIO_ONLY_PATTERNS :: "re list" where
  "AUDIO_ONLY_PATTERNS =
    [ Seq (Atom sep3) (Seq (lit_ci ''audio'') (Atom sep3)),
      Seq (lit_ci ''audio'') (Seq (Atom sep2) (lit_ci ''only'')),
      Seq (lit_ci ''.m4a'') ext_end,
      Seq (lit_ci ''.aac'') ext_end ]"

text \<open>
  The priority table is a plain object indexed by the source tag; a tag that is not one
  of its keys reads as \<open>undefined\<close>, here \<open>None\<close>. (Names inherited from
  \<open>Object.prototype\<close> are not source tags and are left out of the model.)
\<close>

definition SOURCE_PRIORITY :: "string \<Rightarrow> int option" where
  "SOURCE_PRIORITY = map_of
    [ (''instagram'', 100),
      (''twitter'', 100),
      (''vimeo'', 100),
      (''tiktok'', 100),
      (''instagram-json'', 95),
      (''api'', 90),
      (''hls'', 85),
      (''og:video'', 80),
      (''dom-playing'', 75),
      (''dom'', 50),
      (''webRequest'', 40) ]"

text \<open>
  The source tags the adapters write into a candidate: \<open>instagram\<close>, \<open>twitter\<close>,
  \<open>vimeo\<close>, \<open>hls\<close> and \<open>api\<close> by the five parsers of the watcher; \<open>youtube\<close>
  (\<open>checkYouTube\<close>), \<open>dom-playing\<close> and \<open>dom\<close> (\<open>scanVideos\<close>), \<open>og:video\<close>
  (\<open>scanMetaTags\<close>), \<open>instagram-json\<close> and \<open>tiktok\<close> (\<open>scanJsonScripts\<close>) by the
  content script; \<open>hls\<close> and \<open>webRequest\<close> by the background script.
\<close>

definition emitted_source_tags :: "string list" where
  "emitted_source_tags =
    [ ''instagram'', ''twitter'', ''vimeo'', ''hls'', ''api'',
      ''youtube'', ''dom-playing'', ''dom'', ''og:video'', ''instagram-json'', ''tiktok'',
      ''webRequest'' ]"

text \<open>\<open>SOURCE_PRIORITY[source] || 0\<close>, with \<open>source\<close> possibly \<open>undefined\<close>.\<close>

definition priority_or_0 :: "string option \<Rightarrow> int" where
  "priority_or_0 src =
     (case src of None \<Rightarrow> 0
      | Some s \<Rightarrow> (case SOURCE_PRIORITY s of None \<Rightarrow> 0 | Some p \<Rightarrow> p))"

section \<open>URL utilities\<close>

text \<open>
  \<open>String.prototype.replace\<close> with a \<open>g\<close> pattern and a replacement text without
  \<open>$\<close>: scan from the left, replace the match the engine reports at the current
  position and go on after it; where nothing matches copy one character. An empty match
  is replaced and the scan advances by one character.
\<close>

function re_replace_all :: "re \<Rightarrow> string \<Rightarrow> string \<Rightarrow> string" where
  "re_replace_all r rep [] = (if rests r [] = [] then [] else rep)"
| "re_replace_all r rep (c # cs) =
     (if rests r (c # cs) = [] then c # re_replace_all r rep cs
      else if length (hd (rests r (c # cs))) < length (c # cs)
        then rep @ re_replace_all r rep (hd (rests r (c # cs)))
        else rep @ c # re_replace_all r rep cs)"
  by pat_completeness auto
termination
  by (relation "measure (\<lambda>(r, rep, s). length s)") auto

text \<open>
  \<^verbatim>\<open>url.replace(/&bytestart=\d*/gi, "").replace(/&byteend=\d*/gi, "")
     .replace(/\?bytestart=\d*&?/gi, "?").replace(/\?$/g, "")\<close>
\<close>

definition RE_AMP_BYTESTART :: re where
  "RE_AMP_BYTESTART = Seq (lit_ci ''&bytestart='') (Many CDig)"

definition RE_AMP_BYTEEND :: re where
  "RE_AMP_BYTEEND = Seq (lit_ci ''&byteend='') (Many CDig)"

definition RE_Q_BYTESTART :: re where
  "RE_Q_BYTESTART =
     Seq (Atom (CChr CHR ''?''))
       (Seq (lit_ci ''bytestart='') (Seq (Many CDig) (Opt (Atom (CChr CHR ''&'')))))"

definition RE_Q_END :: re where
  "RE_Q_END = Seq (Atom (CChr CHR ''?'')) Eol"

definition cleanByteRangeUrl :: "string \<Rightarrow> string" where
  "cleanByteRangeUrl url =
     re_replace_all RE_Q_END []
       (re_replace_all RE_Q_BYTESTART ''?''
          (re_replace_all RE_AMP_BYTEEND []
             (re_replace_all RE_AMP_BYTESTART [] url)))"

section \<open>Video filtering\<close>

text \<open>\<open>source && SOURCE_PRIORITY[source] >= 75\<close>: false for a missing tag and for a tag
  without a priority.\<close>

definition high_priority :: "string option \<Rightarrow> bool" where
  "high_priority src =
     (case src of None \<Rightarrow> False
      | Some s \<Rightarrow> (case SOURCE_PRIORITY s of None \<Rightarrow> False | Some p \<Rightarrow> p \<ge> 75))"

definition is_youtube :: "string \<Rightarrow> bool" where
  "is_youtube lower \<longleftrightarrow>
     str_includes lower ''youtube.com/watch'' \<or>
     str_includes lower ''youtube.com/shorts/'' \<or>
     str_includes lower ''youtu.be/''"

definition WEBM_EXT :: re where
  "WEBM_EXT = Seq (lit_ci ''.webm'') ext_end"

definition M4S_EXT :: re where
  "M4S_EXT = Seq (lit_ci ''.m4s'') ext_end"

text \<open>\<open>contentType && VIDEO_CONTENT_TYPES.test(contentType)\<close>\<close>

definition has_video_content_type :: "string option \<Rightarrow> bool" where
  "has_video_content_type ct =
     (case ct of None \<Rightarrow> False | Some t \<Rightarrow> t \<noteq> [] \<and> re_test_at VIDEO_CONTENT_TYPES t)"

text \<open>\<open>size && size > n\<close> and \<open>size && size < n\<close>\<close>

definition size_above :: "int option \<Rightarrow> int \<Rightarrow> bool" where
  "size_above sz n = (case sz of None \<Rightarrow> False | Some k \<Rightarrow> k \<noteq> 0 \<and> k > n)"

definition size_below :: "int option \<Rightarrow> int \<Rightarrow> bool" where
  "size_below sz n = (case sz of None \<Rightarrow> False | Some k \<Rightarrow> k \<noteq> 0 \<and> k < n)"

definition matches_any :: "re list \<Rightarrow> string \<Rightarrow> bool" where
  "matches_any patterns lower = list_ex (\<lambda>pattern. re_test pattern lower) patterns"

definition isPlayableVideo ::
  "string \<Rightarrow> string option \<Rightarrow> int option \<Rightarrow> string option \<Rightarrow> bool" where
  "isPlayableVideo url contentType sz src =
     (let lower = toLowerCase url in
      if high_priority src then True
      else if is_youtube lower then True
      else if re_test WEBM_EXT lower then False
      else if re_test M4S_EXT lower then False
      else
        let hasVideoExt = re_test VIDEO_EXTENSIONS lower;
            hasSegmentExt = re_test SEGMENT_EXTENSIONS lower;
            hasVideoContentType = has_video_content_type contentType
        in
          if \<not> hasVideoExt \<and> \<not> hasVideoContentType \<and>
             \<not> (hasSegmentExt \<and> size_above sz (MIN_VIDEO_SIZE_BYTES * 2)) then False
          else if matches_any SEGMENT_PATTERNS lower then False
          else if matches_any AUDIO_ONLY_PATTERNS lower then False
          else if size_below sz MIN_VIDEO_SIZE_BYTES then False
          else True)"

section \<open>Video scoring\<close>

text \<open>
  \<open>parseInt\<close> with no radix: leading white space, a sign, then hexadecimal digits after
  \<open>0x\<close> or decimal digits; \<open>NaN\<close> is \<open>None\<close>. The result is an unbounded integer (the
  code's doubles are exact up to \<open>2^53\<close>).
\<close>

definition digit_val :: "char \<Rightarrow> int" where
  "digit_val c = int (of_char c) - 48"

definition is_hex_digit :: "char \<Rightarrow> bool" where
  "is_hex_digit c \<longleftrightarrow>
     is_digit c \<or> (let n = (of_char (toLowerChar c) :: nat) in 97 \<le> n \<and> n \<le> 102)"

definition hex_val :: "char \<Rightarrow> int" where
  "hex_val c = (if is_digit c then digit_val c else int (of_char (toLowerChar c)) - 87)"

definition dec_value :: "string \<Rightarrow> int" where
  "dec_value ds = foldl (\<lambda>acc c. acc * 10 + digit_val c) 0 ds"

definition hex_value :: "string \<Rightarrow> int" where
  "hex_value ds = foldl (\<lambda>acc c. acc * 16 + hex_val c) 0 ds"

definition parse_unsigned :: "string \<Rightarrow> int option" where
  "parse_unsigned u =
     (if toLowerCase (take 2 u) = ''0x''
      then (let hs = takeWhile is_hex_digit (drop 2 u)
            in if hs = [] then None else Some (hex_value hs))
      else (let ds = takeWhile is_digit u
            in if ds = [] then None else Some (dec_value ds)))"

definition parseInt :: "string \<Rightarrow> int option" where
  "parseInt s =
     (let t = dropWhile is_space s in
      case t of
        [] \<Rightarrow> None
      | c # r \<Rightarrow>
          if c = CHR ''-'' then map_option uminus (parse_unsigned r)
          else if c = CHR ''+'' then parse_unsigned r
          else parse_unsigned t)"

text \<open>\<open>parseInt(quality)\<close> compared with the thresholds; a comparison with \<open>NaN\<close> is
  false.\<close>

definition quality_boost :: "string option \<Rightarrow> int" where
  "quality_boost quality =
     (case quality of
        None \<Rightarrow> 0
      | Some qs \<Rightarrow>
          if qs = [] then 0
          else (case parseInt qs of
                  None \<Rightarrow> 0
                | Some q \<Rightarrow>
                    if q \<ge> 1080 then 15 else if q \<ge> 720 then 10 else if q \<ge> 480 then 5 else 0))"

definition size_boost :: "int option \<Rightarrow> int" where
  "size_boost sz =
     (case sz of
        None \<Rightarrow> 0
      | Some k \<Rightarrow>
          if k = 0 then 0
          else if k > 50000000 then 30
          else if k > 10000000 then 20
          else if k > 5000000 then 10
          else 0)"

text \<open>\<^verbatim>\<open>/\.mp4(\?|#|$)/i\<close> and \<^verbatim>\<open>/\.m3u8(\?|#|$)/i\<close>\<close>

definition MP4_EXT :: re where
  "MP4_EXT = Seq (lit_ci ''.mp4'') ext_end"

definition M3U8_EXT :: re where
  "M3U8_EXT = Seq (lit_ci ''.m3u8'') ext_end"

text \<open>\<^verbatim>\<open>/1080|1920|hd|high/i\<close>\<close>

definition HD_HINT :: re where
  "HD_HINT = alts [lit_ci ''1080'', lit_ci ''1920'', lit_ci ''hd'', lit_ci ''high'']"

definition scoreVideo :: "string \<Rightarrow> int option \<Rightarrow> string option \<Rightarrow> string option \<Rightarrow> int" where
  "scoreVideo url sz src quality =
     (let lower = toLowerCase url;
          score0 = 10 + priority_or_0 src;
          score1 = score0 +
            (if re_test MP4_EXT lower then 20
             else if re_test M3U8_EXT lower then 15 else 0);
          score2 = score1 + size_boost sz;
          score3 = score2 + quality_boost quality;
          score4 = score3 +
            (if re_test HD_HINT lower then 5 else 0);
          score5 = score4 + (if re_test (lit_ci ''720'') lower then 3 else 0)
      in score5)"

section \<open>The registry: \<open>videosByTab\<close>\<close>

text \<open>
  The fields a candidate and a stored entry share, as optional values: \<open>vsize\<close> is the
  field \<open>size\<close> of the source. A candidate (the argument \<open>video\<close>) adds the URL, a
  stored entry (\<open>info\<close>) the time it was first stored.
\<close>

record media =
  vsize :: "int option"
  contentType :: "string option"
  source :: "string option"
  quality :: "string option"
  title :: "string option"
  playlist :: "bool option"

record video = media +
  url :: "string option"

record info = media +
  timestamp :: int

text \<open>
  A JavaScript \<open>Map\<close> keeps its keys in insertion order, and the read path iterates it:
  the per-tab map is an association list, read with \<open>map_of\<close>, written with
  \<open>AList.update\<close> (in place for a key that is present, at the end for a new one) and
  \<open>AList.delete\<close>. The outer map is never iterated; it is a partial function from tab
  identifiers.
\<close>

type_synonym tab_videos = "(string \<times> info) list"
type_synonym registry = "int \<Rightarrow> tab_videos option"

text \<open>\<open>video.size || null\<close> and \<open>video.contentType || null\<close>\<close>

definition num_or_null :: "int option \<Rightarrow> int option" where
  "num_or_null n = (if truthy_num n then n else None)"

definition str_or_null :: "string option \<Rightarrow> string option" where
  "str_or_null s = (if truthy_str s then s else None)"

text \<open>The object stored for a URL that is not in the map yet; \<open>now\<close> is \<open>Date.now()\<close>.\<close>

definition new_entry :: "int \<Rightarrow> video \<Rightarrow> info" where
  "new_entry now video =
     \<lparr> vsize = num_or_null (vsize video),
       contentType = str_or_null (contentType video),
       source = source video,
       quality = quality video,
       title = title video,
       playlist = playlist video,
       timestamp = now \<rparr>"

text \<open>The \<open>else\<close> branch of \<open>addVideoToTab\<close>: the three guarded assignments to the
  stored object.\<close>

definition merge_entry :: "info \<Rightarrow> video \<Rightarrow> info" where
  "merge_entry existing video =
     (let existingPriority = priority_or_0 (source existing);
          newPriority = priority_or_0 (source video);
          e1 = (if newPriority > existingPriority
                then existing\<lparr>source := source video\<rparr> else existing);
          e2 = (if truthy_str (quality video) \<and> \<not> truthy_str (quality e1)
                then e1\<lparr>quality := quality video\<rparr> else e1);
          e3 = (if truthy_str (title video) \<and> \<not> truthy_str (title e2)
                then e2\<lparr>title := title video\<rparr> else e2)
      in e3)"

text \<open>
  \<open>addVideoToTab(tabId, video)\<close>. The tab identifier is \<open>None\<close> when it is
  \<open>undefined\<close>; \<open>!tabId\<close> also holds for tab 0.
\<close>

definition addVideoToTab :: "int \<Rightarrow> registry \<Rightarrow> int option \<Rightarrow> video \<Rightarrow> registry" where
  "addVideoToTab now videosByTab tabId video =
     (case tabId of
        None \<Rightarrow> videosByTab
      | Some tid \<Rightarrow>
          (case url video of
             None \<Rightarrow> videosByTab
           | Some u \<Rightarrow>
               if tid = 0 \<or> u = [] then videosByTab
               else if startsWith u ''blob:'' \<or> startsWith u ''data:'' then videosByTab
               else
                 let cleanUrl = cleanByteRangeUrl u;
                     tabVideos = (case videosByTab tid of None \<Rightarrow> [] | Some m \<Rightarrow> m)
                 in case map_of tabVideos cleanUrl of
                      None \<Rightarrow>
                        videosByTab(tid \<mapsto>
                          AList.update cleanUrl (new_entry now video) tabVideos)
                    | Some existing \<Rightarrow>
                        videosByTab(tid \<mapsto>
                          AList.update cleanUrl (merge_entry existing video) tabVideos)))"

section \<open>Video retrieval\<close>

record result =
  r_url :: string
  r_size :: "int option"
  score :: int
  r_timestamp :: int
  r_quality :: "string option"
  r_source :: "string option"
  r_title :: "string option"
  r_playlist :: "bool option"

definition to_result :: "string \<Rightarrow> info \<Rightarrow> result" where
  "to_result u i =
     \<lparr> r_url = u,
       r_size = vsize i,
       score = scoreVideo u (vsize i) (source i) (quality i),
       r_timestamp = timestamp i,
       r_quality = quality i,
       r_source = source i,
       r_title = title i,
       r_playlist = playlist i \<rparr>"

definition expired :: "int \<Rightarrow> info \<Rightarrow> bool" where
  "expired now i \<longleftrightarrow> now - timestamp i > ENTRY_TTL_MS"

text \<open>
  The loop over \<open>tabVideos.entries()\<close>: an expired entry is deleted from the map, a
  non-playable one is skipped, the others are pushed onto \<open>results\<close>. The function
  returns the results and the entries that stay in the map.
\<close>

fun scan_entries :: "int \<Rightarrow> tab_videos \<Rightarrow> result list \<times> tab_videos" where
  "scan_entries now [] = ([], [])"
| "scan_entries now ((u, i) # rest) =
     (let (results, kept) = scan_entries now rest in
      if expired now i then (results, kept)
      else if \<not> isPlayableVideo u (contentType i) (vsize i) (source i)
        then (results, (u, i) # kept)
        else (to_result u i # results, (u, i) # kept))"

text \<open>
  \<open>Array.prototype.sort\<close> is stable: an insertion sort that puts an element before the
  first one the comparator does not rank ahead of it.
\<close>

fun insert_sorted :: "('a \<Rightarrow> 'a \<Rightarrow> int) \<Rightarrow> 'a \<Rightarrow> 'a list \<Rightarrow> 'a list" where
  "insert_sorted cmp x [] = [x]"
| "insert_sorted cmp x (y # ys) =
     (if cmp x y \<le> 0 then x # y # ys else y # insert_sorted cmp x ys)"

definition js_sort :: "('a \<Rightarrow> 'a \<Rightarrow> int) \<Rightarrow> 'a list \<Rightarrow> 'a list" where
  "js_sort cmp xs = foldr (insert_sorted cmp) xs []"

text \<open>The comparator of \<open>getVideosForTab\<close>: by score, then by timestamp, both descending.\<close>

definition compare_results :: "result \<Rightarrow> result \<Rightarrow> int" where
  "compare_results a b =
     (if score b \<noteq> score a then score b - score a else r_timestamp b - r_timestamp a)"

definition getVideosForTab :: "int \<Rightarrow> registry \<Rightarrow> int option \<Rightarrow> result list \<times> registry" where
  "getVideosForTab now videosByTab tabId =
     (case tabId of
        None \<Rightarrow> ([], videosByTab)
      | Some tid \<Rightarrow>
          (case videosByTab tid of
             None \<Rightarrow> ([], videosByTab)
           | Some tabVideos \<Rightarrow>
               let (results, kept) = scan_entries now tabVideos
               in (take MAX_RESULTS (js_sort compare_results results),
                   videosByTab(tid \<mapsto> kept))))"

section \<open>Auxiliary notions for the proofs\<close>

text \<open>A string starts with a given text up to the case of ASCII letters.\<close>

definition ci_prefix :: "string \<Rightarrow> string \<Rightarrow> bool" where
  "ci_prefix p s \<longleftrightarrow>
     length p \<le> length s \<and> map toLowerChar (take (length p) s) = map toLowerChar p"




text \<open>The two candidates of the end-to-end scenario of the specification.\<close>

definition scenario_dom :: video where
  "scenario_dom =
     \<lparr> vsize = Some 200000, contentType = None, source = Some ''dom'', quality = None,
       title = None, playlist = None, url = Some ''v.mp4'' \<rparr>"

definition scenario_webRequest :: video where
  "scenario_webRequest =
     \<lparr> vsize = Some 8000000, contentType = Some ''video/mp4'', source = Some ''webRequest'',
       quality = None, title = None, playlist = None, url = Some ''v.mp4'' \<rparr>"


section \<open>Playlist parsing\<close>

text \<open>
  \<open>String.prototype.split\<close> with a non-empty separator text, \<open>trim\<close>, and the decimal
  text of a non-negative integer (what a template literal prints for it below \<open>10^21\<close>).
\<close>

function split_from :: "string \<Rightarrow> string \<Rightarrow> string \<Rightarrow> string list" where
  "split_from sep acc [] = [rev acc]"
| "split_from sep acc (c # cs) =
     (if sep \<noteq> [] \<and> startsWith (c # cs) sep
      then rev acc # split_from sep [] (drop (length sep) (c # cs))
      else split_from sep (c # acc) cs)"
  by pat_completeness auto
termination
  by (relation "measure (\<lambda>(sep, acc, s). length s)") auto

definition split_on :: "string \<Rightarrow> string \<Rightarrow> string list" where
  "split_on sep s = split_from sep [] s"

definition trim :: "string \<Rightarrow> string" where
  "trim s = rev (dropWhile is_space (rev (dropWhile is_space s)))"

function show_nat :: "nat \<Rightarrow> string" where
  "show_nat n =
     (if n < 10 then [char_of (48 + n)] else show_nat (n div 10) @ [char_of (48 + n mod 10)])"
  by pat_completeness auto
termination
  by (relation "measure id") auto

text \<open>The first element of a list that a partial function accepts; and the first position
  of a string, from the left, at which a partial function gives a result.\<close>

fun first_some :: "('a \<Rightarrow> 'b option) \<Rightarrow> 'a list \<Rightarrow> 'b option" where
  "first_some f [] = None"
| "first_some f (x # xs) = (case f x of Some y \<Rightarrow> Some y | None \<Rightarrow> first_some f xs)"

fun find_first :: "(string \<Rightarrow> 'b option) \<Rightarrow> string \<Rightarrow> 'b option" where
  "find_first f [] = f []"
| "find_first f (c # cs) = (case f (c # cs) of Some y \<Rightarrow> Some y | None \<Rightarrow> find_first f cs)"

text \<open>
  \<^verbatim>\<open>trimmed.match(/RESOLUTION=(\d+)x(\d+)/)\<close>: the two groups of the match the engine
  finds first at a position, and the search for the leftmost position.
\<close>

definition RESOLUTION_at :: "string \<Rightarrow> (string \<times> string) option" where
  "RESOLUTION_at s =
     first_some
       (\<lambda>s1. first_some
          (\<lambda>t. first_some
             (\<lambda>t'. case rests (Many1 CDig) t' of
                      [] \<Rightarrow> None
                    | u # _ \<Rightarrow> Some (take (length s1 - length t) s1, take (length t' - length u) t'))
             (rests (Atom (CChr CHR ''x'')) t))
          (rests (Many1 CDig) s1))
       (rests (lit ''RESOLUTION='') s)"

definition RESOLUTION_match :: "string \<Rightarrow> (string \<times> string) option" where
  "RESOLUTION_match s = find_first RESOLUTION_at s"

text \<open>
  \<^verbatim>\<open>url.match(/(.+\/)[^\/]+\.m3u8/i)\<close>: group 1 of the first match. The engine tries the
  longest \<open>.+\/\<close> first and backs off until the rest matches.
\<close>

definition base_at :: "string \<Rightarrow> string option" where
  "base_at s =
     first_some
       (\<lambda>t. if re_test_at (Seq (Many1 (CNot ''/'')) (lit_ci ''.m3u8'')) t
            then Some (take (length s - length t) s) else None)
       (rests (Seq (Many1 CAny) (Atom (CChr CHR ''/''))) s)"

definition base_match :: "string \<Rightarrow> string option" where
  "base_match s = find_first base_at s"

text \<open>\<^verbatim>\<open>/^https?:\/\//\<close>, run with \<open>re_test_at\<close>.\<close>

definition HTTP_SCHEME :: re where
  "HTTP_SCHEME = Seq (lit ''http'') (Seq (Opt (Atom (CChr CHR ''s''))) (lit ''://''))"

record variant =
  v_url :: string
  v_quality :: "string option"

text \<open>The template \<^verbatim>\<open>`${Math.min(parseInt(w), parseInt(h))}p`\<close>; \<open>parseInt\<close> of a digit
  group is never \<open>NaN\<close>, the branch is there for totality.\<close>

definition min_quality :: "string \<Rightarrow> string \<Rightarrow> string" where
  "min_quality w h =
     (case (parseInt w, parseInt h) of
        (Some a, Some b) \<Rightarrow> show_nat (nat (min a b)) @ ''p''
      | _ \<Rightarrow> ''NaNp'')"

definition looks_like_variant :: "string \<Rightarrow> bool" where
  "looks_like_variant s \<longleftrightarrow> str_includes s ''.m3u8'' \<or> re_test_at HTTP_SCHEME s"

text \<open>The body of the loop over the lines of a stream block in \<open>fetchAndParseM3U8\<close>; the
  state is the pair of \<open>quality\<close> and \<open>variantUrl\<close>.\<close>

definition m3u8_line_step ::
  "string option \<times> string option \<Rightarrow> string \<Rightarrow> string option \<times> string option" where
  "m3u8_line_step st line =
     (let trimmed = trim line;
          quality = fst st;
          variantUrl = snd st;
          quality' =
            (if str_includes trimmed ''RESOLUTION=''
             then (case RESOLUTION_match trimmed of
                     Some (w, h) \<Rightarrow> Some (min_quality w h)
                   | None \<Rightarrow> quality)
             else quality);
          variantUrl' =
            (if trimmed \<noteq> [] \<and> \<not> startsWith trimmed ''#'' \<and> looks_like_variant trimmed
             then Some trimmed else variantUrl)
      in (quality', variantUrl'))"

text \<open>\<open>if (!variantUrl.startsWith("http"))\<close>: prefix the base of the playlist URL, when the
  pattern finds one.\<close>

definition resolve_variant :: "string \<Rightarrow> string \<Rightarrow> string" where
  "resolve_variant playlistUrl variantUrl =
     (if \<not> startsWith variantUrl ''http''
      then (case base_match playlistUrl of Some base \<Rightarrow> base @ variantUrl | None \<Rightarrow> variantUrl)
      else variantUrl)"

definition parse_stream_block :: "string \<Rightarrow> string \<Rightarrow> variant option" where
  "parse_stream_block playlistUrl segment =
     (case foldl m3u8_line_step (None, None) (split_on [CHR 0x0A] segment) of
        (q, variantUrl) \<Rightarrow>
          (case variantUrl of
             None \<Rightarrow> None
           | Some v \<Rightarrow>
               if v = [] then None
               else Some \<lparr> v_url = resolve_variant playlistUrl v, v_quality = q \<rparr>))"

text \<open>\<open>parseInt(v.quality) || 0\<close>; \<open>parseInt(null)\<close> is \<open>NaN\<close>.\<close>

definition quality_num :: "variant \<Rightarrow> int" where
  "quality_num v =
     (case v_quality v of
        None \<Rightarrow> 0
      | Some q \<Rightarrow> (case parseInt q of None \<Rightarrow> 0 | Some n \<Rightarrow> n))"

definition compare_variants :: "variant \<Rightarrow> variant \<Rightarrow> int" where
  "compare_variants a b = quality_num b - quality_num a"

text \<open>The list \<open>variants\<close> of \<open>fetchAndParseM3U8\<close> after the sort, for a playlist URL and
  the text of the response.\<close>

definition m3u8_variants :: "string \<Rightarrow> string \<Rightarrow> variant list" where
  "m3u8_variants playlistUrl text =
     (if \<not> str_includes text ''#EXTM3U'' then []
      else if str_includes text ''#EXT-X-STREAM-INF:''
        then js_sort compare_variants
               (List.map_filter (parse_stream_block playlistUrl)
                  (filter (\<lambda>segment. trim segment \<noteq> [])
                     (split_on ''#EXT-X-STREAM-INF:'' text)))
        else [])"

text \<open>
  \<open>fetchAndParseM3U8(url, tabId)\<close>: \<open>text\<close> is the body the fetch returned, \<open>None\<close> when
  the fetch failed (the exception is swallowed). The three best variants are merged
  into the registry.
\<close>

definition hls_candidate :: "variant \<Rightarrow> video" where
  "hls_candidate v =
     \<lparr> vsize = None, contentType = None, source = Some ''hls'', quality = v_quality v,
       title = None, playlist = Some True, url = Some (v_url v) \<rparr>"

definition fetchAndParseM3U8 ::
  "int \<Rightarrow> registry \<Rightarrow> string \<Rightarrow> int option \<Rightarrow> string option \<Rightarrow> registry" where
  "fetchAndParseM3U8 now videosByTab playlistUrl tabId response =
     (case response of
        None \<Rightarrow> videosByTab
      | Some text \<Rightarrow>
          foldl (\<lambda>reg v. addVideoToTab now reg tabId (hls_candidate v)) videosByTab
            (take 3 (m3u8_variants playlistUrl text)))"

subsection \<open>The playlist parser of the watcher\<close>

text \<open>\<open>segment.split(/[\s,\n]+/)\<close>: the pieces between the runs of white space and commas.\<close>

definition is_part_sep :: "char \<Rightarrow> bool" where
  "is_part_sep c \<longleftrightarrow> is_space c \<or> c = CHR '',''"

function split_parts :: "string \<Rightarrow> string \<Rightarrow> string list" where
  "split_parts acc [] = [rev acc]"
| "split_parts acc (c # cs) =
     (if is_part_sep c then rev acc # split_parts [] (dropWhile is_part_sep cs)
      else split_parts (c # acc) cs)"
  by pat_completeness auto
termination
  by (relation "measure (\<lambda>(acc, s). length s)")
     (auto simp: length_dropWhile_le less_Suc_eq_le)

text \<open>\<open>xs[1]\<close> of an array of strings, \<open>undefined\<close> when it has fewer than two elements.\<close>

definition second :: "string list \<Rightarrow> string option" where
  "second xs = (case xs of _ # y # _ \<Rightarrow> Some y | _ \<Rightarrow> None)"

text \<open>\<open>res.split("x")[1] + "p"\<close>; \<open>undefined + "p"\<close> is the text \<open>undefinedp\<close>.\<close>

definition hls_quality :: "string \<Rightarrow> string" where
  "hls_quality res =
     (case second (split_on ''x'' res) of Some h \<Rightarrow> h @ ''p'' | None \<Rightarrow> ''undefinedp'')"

definition hls_part_step ::
  "string option \<times> string option \<Rightarrow> string \<Rightarrow> string option \<times> string option" where
  "hls_part_step st part =
     (let quality = fst st;
          variantUrl = snd st;
          quality' =
            (if str_includes part ''RESOLUTION=''
             then (let res = second (split_on ''='' part)
                   in if truthy_str res then Some (hls_quality (the res)) else quality)
             else quality);
          variantUrl' =
            (if \<not> startsWith part ''#'' \<and> looks_like_variant part
             then Some (trim part) else variantUrl)
      in (quality', variantUrl'))"

definition hls_parse_block :: "string \<Rightarrow> string \<Rightarrow> variant option" where
  "hls_parse_block playlistUrl segment =
     (case foldl hls_part_step (None, None) (split_parts [] segment) of
        (q, variantUrl) \<Rightarrow>
          (case variantUrl of
             None \<Rightarrow> None
           | Some v \<Rightarrow>
               if v = [] then None
               else Some \<lparr> v_url = resolve_variant playlistUrl v, v_quality = q \<rparr>))"

text \<open>The variants \<open>HLSParser.onLoad(responseText, url)\<close> hands to \<open>dispatchVideo\<close>, in
  that order; for a playlist without stream declarations, the playlist URL itself.\<close>

definition HLSParser_variants :: "string \<Rightarrow> string \<Rightarrow> variant list" where
  "HLSParser_variants responseText playlistUrl =
     (if \<not> str_includes responseText ''#EXTM3U'' then []
      else if \<not> str_includes playlistUrl ''.m3u8'' then []
      else if str_includes responseText ''#EXT-X-STREAM-INF:''
        then js_sort compare_variants
               (List.map_filter (hls_parse_block playlistUrl)
                  (filter (\<lambda>segment. trim segment \<noteq> [])
                     (split_on ''#EXT-X-STREAM-INF:'' responseText)))
        else [\<lparr> v_url = playlistUrl, v_quality = None \<rparr>])"

section \<open>The watcher: dispatching a candidate from the page\<close>

text \<open>
  The browser's \<open>URL\<close> class is not part of the extension; the functions of the
  watcher take it as a parameter: \<open>parse_url\<close> is \<open>new URL(s)\<close> (\<open>None\<close> when it
  throws), \<open>protocol\<close> the field of that name, \<open>searchParams_set\<close> is
  \<open>url.searchParams.set(key, value)\<close> and \<open>url_toString\<close> is \<open>url.toString()\<close>.
\<close>

record 'u url_api =
  parse_url :: "string \<Rightarrow> 'u option"
  protocol :: "'u \<Rightarrow> string"
  searchParams_set :: "'u \<Rightarrow> string \<Rightarrow> string \<Rightarrow> 'u"
  url_toString :: "'u \<Rightarrow> string"

definition isValidUrl :: "'u url_api \<Rightarrow> string \<Rightarrow> bool" where
  "isValidUrl api str =
     (case parse_url api str of
        None \<Rightarrow> False
      | Some u \<Rightarrow> protocol api u = ''http:'' \<or> protocol api u = ''https:'')"

text \<open>\<open>JSON.stringify\<close> of an object whose values are strings, given as the list of its
  keys and values in insertion order.\<close>

definition hex_digit_char :: "nat \<Rightarrow> char" where
  "hex_digit_char n = (if n < 10 then char_of (48 + n) else char_of (87 + n))"

definition json_escape :: "char \<Rightarrow> string" where
  "json_escape c =
     (let n = (of_char c :: nat) in
      if n = 34 then [CHR 0x5C, CHR 0x22]
      else if n = 92 then [CHR 0x5C, CHR 0x5C]
      else if n = 8 then [CHR 0x5C, CHR ''b'']
      else if n = 9 then [CHR 0x5C, CHR ''t'']
      else if n = 10 then [CHR 0x5C, CHR ''n'']
      else if n = 12 then [CHR 0x5C, CHR ''f'']
      else if n = 13 then [CHR 0x5C, CHR ''r'']
      else if n < 32 then [CHR 0x5C, CHR ''u'', CHR ''0'', CHR ''0'',
                           hex_digit_char (n div 16), hex_digit_char (n mod 16)]
      else [c])"

definition json_quote :: "string \<Rightarrow> string" where
  "json_quote s = [CHR 0x22] @ concat (map json_escape s) @ [CHR 0x22]"

fun json_members :: "(string \<times> string) list \<Rightarrow> string" where
  "json_members [] = []"
| "json_members [(k, v)] = json_quote k @ '':'' @ json_quote v"
| "json_members ((k, v) # kvs) = json_quote k @ '':'' @ json_quote v @ '','' @ json_members kvs"

definition JSON_stringify :: "(string \<times> string) list \<Rightarrow> string" where
  "JSON_stringify obj = ''{'' @ json_members obj @ ''}''"

text \<open>The object \<open>headers\<close> of \<open>embedHeaders\<close>: the referer and the origin, each only if it
  is non-empty and a valid \<open>http(s)\<close> URL.\<close>

definition embedded_headers :: "'u url_api \<Rightarrow> string \<Rightarrow> string \<Rightarrow> (string \<times> string) list" where
  "embedded_headers api referer origin =
     (if referer \<noteq> [] \<and> isValidUrl api referer then [(''referer'', referer)] else []) @
     (if origin \<noteq> [] \<and> isValidUrl api origin then [(''origin'', origin)] else [])"

definition embedHeaders :: "'u url_api \<Rightarrow> string \<Rightarrow> string \<Rightarrow> string \<Rightarrow> string" where
  "embedHeaders api videoUrl referer origin =
     (if referer = [] \<and> origin = [] then videoUrl
      else if str_includes videoUrl ''headers='' then videoUrl
      else
        let headers = embedded_headers api referer origin in
        if headers = [] then videoUrl
        else (case parse_url api videoUrl of
                None \<Rightarrow> videoUrl
              | Some u \<Rightarrow>
                  url_toString api (searchParams_set api u ''headers'' (JSON_stringify headers))))"

text \<open>\<^verbatim>\<open>/m3u8-proxy\?url=/i\<close>, \<^verbatim>\<open>/pipe\.sideby\.me/i\<close>, \<^verbatim>\<open>/\/proxy\/\?url=/i\<close>\<close>

definition proxyPatterns :: "re list" where
  "proxyPatterns = [lit_ci ''m3u8-proxy?url='', lit_ci ''pipe.sideby.me'', lit_ci ''/proxy/?url='']"

definition isAlreadyProxied :: "string \<Rightarrow> bool" where
  "isAlreadyProxied u = list_ex (\<lambda>p. re_test p u) proxyPatterns"

record page_video = video +
  alreadyProxied :: bool

text \<open>
  \<open>dispatchVideo(video)\<close>: \<open>href\<close> and \<open>origin\<close> are \<open>document.location.href\<close> and
  \<open>document.location.origin\<close>. The function returns the set \<open>foundVideos\<close> and the
  object it dispatches with the event, \<open>None\<close> when it returns early.
\<close>

definition dispatchVideo ::
  "'u url_api \<Rightarrow> string \<Rightarrow> string \<Rightarrow> string set \<Rightarrow> page_video
     \<Rightarrow> string set \<times> page_video option" where
  "dispatchVideo api href origin foundVideos video =
     (case url video of
        None \<Rightarrow> (foundVideos, None)
      | Some u \<Rightarrow>
          if u = [] \<or> u \<in> foundVideos then (foundVideos, None)
          else
            let v1 = (if isAlreadyProxied u then video\<lparr>alreadyProxied := True\<rparr> else video);
                u2 = (if \<not> str_includes u ''headers='' \<and> \<not> alreadyProxied v1
                      then embedHeaders api u href origin else u);
                v2 = v1\<lparr>url := Some u2\<rparr>
            in (insert u2 foundVideos, Some v2))"

subsection \<open>A small URL class to run examples\<close>

text \<open>
  A stand-in for the browser's class, used only to evaluate \<open>dispatchVideo\<close> on examples:
  a text parses when it begins with a scheme and a colon, the protocol is the scheme in
  lower case with the colon, and setting a parameter appends it, form-encoded, to the
  query, before the fragment.
\<close>

definition is_alpha :: "char \<Rightarrow> bool" where
  "is_alpha c \<longleftrightarrow> (let n = (of_char (toLowerChar c) :: nat) in 97 \<le> n \<and> n \<le> 122)"

definition scheme_of :: "string \<Rightarrow> string option" where
  "scheme_of s =
     (let sch = takeWhile (\<lambda>c. c \<noteq> CHR '':'') s in
      if length sch < length s \<and> sch \<noteq> [] \<and> is_alpha (hd sch)
         \<and> list_all (\<lambda>c. is_alpha c \<or> is_digit c \<or> c \<in> set ''+-.'') sch
      then Some (toLowerCase sch) else None)"

definition form_encode_char :: "char \<Rightarrow> string" where
  "form_encode_char c =
     (if is_alpha c \<or> is_digit c \<or> c \<in> set ''*-._'' then [c]
      else if c = CHR '' '' then ''+''
      else (let n = (of_char c :: nat)
            in [CHR ''%'', toUpperChar (hex_digit_char (n div 16)),
                toUpperChar (hex_digit_char (n mod 16))]))"

definition simple_set_param :: "string \<Rightarrow> string \<Rightarrow> string \<Rightarrow> string" where
  "simple_set_param u k v =
     (let base = takeWhile (\<lambda>c. c \<noteq> CHR ''#'') u;
          frag = dropWhile (\<lambda>c. c \<noteq> CHR ''#'') u
      in base @ (if CHR ''?'' \<in> set base then ''&'' else ''?'') @ k @ ''=''
           @ concat (map form_encode_char v) @ frag)"

definition simple_url_api :: "string url_api" where
  "simple_url_api =
     \<lparr> parse_url = (\<lambda>s. if scheme_of s = None then None else Some s),
       protocol = (\<lambda>u. (case scheme_of u of None \<Rightarrow> [] | Some sch \<Rightarrow> sch @ '':'')),
       searchParams_set = simple_set_param,
       url_toString = (\<lambda>u. u) \<rparr>"

subsection \<open>Example playlists\<close>


definition portrait_master :: string where
  "portrait_master =
     ''#EXTM3U\<newline>'' @
     ''#EXT-X-STREAM-INF:BANDWIDTH=2560000,RESOLUTION=720x1280\<newline>'' @
     ''v/index.m3u8\<newline>''"


section \<open>The source priority table\<close>

lemma SOURCE_PRIORITY_nonneg: "SOURCE_PRIORITY t = Some p \<Longrightarrow> 0 \<le> p"
  by (auto simp: SOURCE_PRIORITY_def split: if_splits)

lemma priority_or_0_nonneg: "0 \<le> priority_or_0 src"
  by (auto simp: priority_or_0_def dest: SOURCE_PRIORITY_nonneg split: option.splits)

text \<open>
  Claim C8, as stated, fails: the content script tags the page URL of a YouTube watch or
  shorts page with the source \<open>youtube\<close> (\<open>checkYouTube\<close>), and the priority table has
  no entry for that tag.
\<close>

theorem youtube_tag_has_no_priority:
  "''youtube'' \<in> set emitted_source_tags \<and> SOURCE_PRIORITY ''youtube'' = None"
  by (simp add: SOURCE_PRIORITY_def emitted_source_tags_def)

text \<open>
  Claim C8, amended: every source tag an adapter emits, other than \<open>youtube\<close>, has an
  entry in the priority table; no entry of the table is negative; \<open>youtube\<close> has no
  entry, and the merge reads a missing entry as priority 0.
\<close>

theorem source_priority_total_except_youtube:
  "(t \<in> set emitted_source_tags \<longrightarrow> t \<noteq> ''youtube'' \<longrightarrow> (\<exists>p. SOURCE_PRIORITY t = Some p))
   \<and> (SOURCE_PRIORITY t = Some q \<longrightarrow> 0 \<le> q)
   \<and> SOURCE_PRIORITY ''youtube'' = None
   \<and> priority_or_0 (Some ''youtube'') = 0"
  by (auto simp: SOURCE_PRIORITY_def emitted_source_tags_def priority_or_0_def split: if_splits)

theorem source_priority_total_except_youtube_witness:
  "''hls'' \<in> set emitted_source_tags \<and> ''hls'' \<noteq> ''youtube''
   \<and> SOURCE_PRIORITY ''hls'' = Some 85 \<and> (0::int) \<le> 85"
  using source_priority_total_except_youtube [of "''hls''" 85]
  by (simp add: SOURCE_PRIORITY_def emitted_source_tags_def)

section \<open>Merging a candidate into a stored entry\<close>







section \<open>Facts about the matcher\<close>


lemma ci_prefix_Nil [simp]: "ci_prefix [] s"
  by (simp add: ci_prefix_def)

lemma ci_prefix_Cons_Nil [simp]: "\<not> ci_prefix (c # p) []"
  by (simp add: ci_prefix_def)

lemma ci_prefix_Cons_Cons [simp]:
  "ci_prefix (c # p) (x # s) \<longleftrightarrow> toLowerChar x = toLowerChar c \<and> ci_prefix p s"
  by (auto simp: ci_prefix_def)

lemma rests_lit_ci:
  "p \<noteq> [] \<Longrightarrow> rests (lit_ci p) s = (if ci_prefix p s then [drop (length p) s] else [])"
proof (induction p arbitrary: s rule: lit_ci.induct)
  case 1
  then show ?case by simp
next
  case (2 c)
  then show ?case by (cases s) auto
next
  case (3 c d cs)
  then show ?case by (cases s) auto
qed

lemma rests_Seq_lit_ci:
  "p \<noteq> [] \<Longrightarrow> rests (Seq (lit_ci p) r) s = (if ci_prefix p s then rests r (drop (length p) s) else [])"
  by (simp add: rests_lit_ci)

lemma re_test_mono:
  assumes "\<And>t. re_test_at r t \<Longrightarrow> re_test_at r' t"
  shows "re_test r s \<Longrightarrow> re_test r' s"
  using assms by (induction s) auto

lemma toLowerChar_eq_nonletter:
  assumes "\<not> (97 \<le> (of_char a :: nat) \<and> (of_char a :: nat) \<le> 122)"
    and "\<not> (65 \<le> (of_char a :: nat) \<and> (of_char a :: nat) \<le> 90)"
  shows "toLowerChar c = a \<longleftrightarrow> c = a"
proof
  assume h: "toLowerChar c = a"
  show "c = a"
  proof (cases "65 \<le> (of_char c :: nat) \<and> (of_char c :: nat) \<le> 90")
    case True
    then have "a = char_of (of_char c + 32 :: nat)"
      using h by (simp add: toLowerChar_def Let_def)
    then have "(of_char a :: nat) = (of_char c + 32) mod 256"
      by simp
    with True assms show ?thesis by auto
  next
    case False
    then show ?thesis using h by (auto simp: toLowerChar_def Let_def)
  qed
next
  assume "c = a"
  with assms show "toLowerChar c = a"
    by (auto simp: toLowerChar_def Let_def)
qed

lemma toLowerChar_id:
  "\<not> (65 \<le> (of_char a :: nat) \<and> (of_char a :: nat) \<le> 90) \<Longrightarrow> toLowerChar a = a"
  by (auto simp: toLowerChar_def Let_def)

lemmas ci_simps = rests_Seq_lit_ci rests_lit_ci toLowerChar_id toLowerChar_eq_nonletter

section \<open>The classifier\<close>

lemma mp4_at_is_video_ext: "re_test_at MP4_EXT t \<Longrightarrow> re_test_at VIDEO_EXTENSIONS t"
  unfolding re_test_at_def MP4_EXT_def VIDEO_EXTENSIONS_def
  by (cases t) (auto simp: ci_simps split: if_splits)


lemma mp4_is_video_ext: "re_test MP4_EXT s \<Longrightarrow> re_test VIDEO_EXTENSIONS s"
  by (rule re_test_mono [OF mp4_at_is_video_ext])

lemma high_priority_site_parsers:
  "src \<in> {Some ''instagram'', Some ''twitter'', Some ''vimeo'', Some ''tiktok''} \<Longrightarrow> high_priority src"
  by (auto simp: high_priority_def SOURCE_PRIORITY_def)

lemma isPlayableVideo_high: "high_priority src \<Longrightarrow> isPlayableVideo u ct sz src"
  by (simp add: isPlayableVideo_def Let_def)

lemma isPlayableVideo_low:
  "\<not> high_priority src \<Longrightarrow> \<not> is_youtube (toLowerCase u) \<Longrightarrow>
   isPlayableVideo u ct sz src \<longleftrightarrow>
     \<not> re_test WEBM_EXT (toLowerCase u) \<and> \<not> re_test M4S_EXT (toLowerCase u)
     \<and> (re_test VIDEO_EXTENSIONS (toLowerCase u) \<or> has_video_content_type ct
         \<or> (re_test SEGMENT_EXTENSIONS (toLowerCase u) \<and> size_above sz (MIN_VIDEO_SIZE_BYTES * 2)))
     \<and> \<not> matches_any SEGMENT_PATTERNS (toLowerCase u)
     \<and> \<not> matches_any AUDIO_ONLY_PATTERNS (toLowerCase u)
     \<and> \<not> size_below sz MIN_VIDEO_SIZE_BYTES"
  by (simp add: isPlayableVideo_def Let_def) blast

text \<open>
  Claim C4, amended. When the source has no priority of 75 or more and the URL is not a
  YouTube watch, shorts or \<open>youtu.be\<close> URL, the classifier rejects every \<open>.webm\<close>
  URL, every URL matching a segment pattern, every URL matching an audio-only pattern and
  every URL with declared size 100,000; and it accepts every \<open>.mp4\<close> URL with no
  declared size that matches none of the \<open>.webm\<close>, \<open>.m4s\<close>, segment and audio-only
  patterns. A URL tagged by a per-site parser (\<open>instagram\<close>, \<open>twitter\<close>, \<open>vimeo\<close>,
  \<open>tiktok\<close>) is accepted whatever its extension.
\<close>

theorem classifier_rejects_and_accepts:
  "(\<not> high_priority src \<and> \<not> is_youtube (toLowerCase u) \<longrightarrow>
      (re_test WEBM_EXT (toLowerCase u) \<longrightarrow> \<not> isPlayableVideo u ct sz src)
    \<and> (matches_any SEGMENT_PATTERNS (toLowerCase u) \<longrightarrow> \<not> isPlayableVideo u ct sz src)
    \<and> (matches_any AUDIO_ONLY_PATTERNS (toLowerCase u) \<longrightarrow> \<not> isPlayableVideo u ct sz src)
    \<and> (sz = Some 100000 \<longrightarrow> \<not> isPlayableVideo u ct sz src)
    \<and> (re_test MP4_EXT (toLowerCase u) \<and> sz = None
         \<and> \<not> re_test WEBM_EXT (toLowerCase u) \<and> \<not> re_test M4S_EXT (toLowerCase u)
         \<and> \<not> matches_any SEGMENT_PATTERNS (toLowerCase u)
         \<and> \<not> matches_any AUDIO_ONLY_PATTERNS (toLowerCase u)
        \<longrightarrow> isPlayableVideo u ct sz src))
   \<and> (src \<in> {Some ''instagram'', Some ''twitter'', Some ''vimeo'', Some ''tiktok''}
        \<longrightarrow> isPlayableVideo u ct sz src)"
proof -
  have small: "size_below (Some 100000) MIN_VIDEO_SIZE_BYTES"
    by (simp add: size_below_def MIN_VIDEO_SIZE_BYTES_def)
  have none: "\<not> size_below None MIN_VIDEO_SIZE_BYTES"
    by (simp add: size_below_def)
  show ?thesis
    using small none mp4_is_video_ext [of "toLowerCase u"]
      isPlayableVideo_high [OF high_priority_site_parsers, of src u ct sz]
    by (cases "\<not> high_priority src \<and> \<not> is_youtube (toLowerCase u)")
       (auto simp: isPlayableVideo_low)
qed


text \<open>
  Claim C4, as stated, fails in two places. The source check comes first, so a \<open>.webm\<close>
  URL tagged by a per-site parser is accepted; and a \<open>.mp4\<close> URL with no declared size
  is still rejected when it matches a segment pattern.
\<close>

theorem webm_with_site_source_is_accepted:
  "re_test WEBM_EXT (toLowerCase ''https://cdn.example.com/a.webm'')
   \<and> isPlayableVideo ''https://cdn.example.com/a.webm'' None None (Some ''instagram'')
   \<and> re_test MP4_EXT (toLowerCase ''https://cdn.example.com/v/seg-12.mp4'')
   \<and> \<not> isPlayableVideo ''https://cdn.example.com/v/seg-12.mp4'' None None None"
  by code_simp

theorem classifier_rejects_and_accepts_witness:
  "\<not> high_priority (Some ''dom'')
   \<and> \<not> is_youtube (toLowerCase ''https://cdn.example.com/v/seg-12.mp4'')
   \<and> matches_any SEGMENT_PATTERNS (toLowerCase ''https://cdn.example.com/v/seg-12.mp4'')
   \<and> \<not> isPlayableVideo ''https://cdn.example.com/v/seg-12.mp4'' None None (Some ''dom'')
   \<and> \<not> is_youtube (toLowerCase ''https://cdn.example.com/a.webm'')
   \<and> re_test WEBM_EXT (toLowerCase ''https://cdn.example.com/a.webm'')
   \<and> \<not> isPlayableVideo ''https://cdn.example.com/a.webm'' None None (Some ''dom'')
   \<and> \<not> is_youtube (toLowerCase ''https://cdn.example.com/audio_only/a.mp4'')
   \<and> matches_any AUDIO_ONLY_PATTERNS (toLowerCase ''https://cdn.example.com/audio_only/a.mp4'')
   \<and> \<not> isPlayableVideo ''https://cdn.example.com/audio_only/a.mp4'' None None (Some ''dom'')
   \<and> \<not> is_youtube (toLowerCase ''https://cdn.example.com/v.mp4'')
   \<and> re_test MP4_EXT (toLowerCase ''https://cdn.example.com/v.mp4'')
   \<and> \<not> isPlayableVideo ''https://cdn.example.com/v.mp4'' None (Some 100000) (Some ''dom'')
   \<and> isPlayableVideo ''https://cdn.example.com/v.mp4'' None None (Some ''dom'')
   \<and> isPlayableVideo ''https://cdn.example.com/a.webm'' None None (Some ''instagram'')"
proof -
  define seg where "seg = ''https://cdn.example.com/v/seg-12.mp4''"
  define webm where "webm = ''https://cdn.example.com/a.webm''"
  define aud where "aud = ''https://cdn.example.com/audio_only/a.mp4''"
  define mp4 where "mp4 = ''https://cdn.example.com/v.mp4''"
  have a: "\<not> high_priority (Some ''dom'')"
    by (simp add: high_priority_def SOURCE_PRIORITY_def)
  have s: "\<not> is_youtube (toLowerCase seg)" "matches_any SEGMENT_PATTERNS (toLowerCase seg)"
    unfolding seg_def by code_simp+
  have w: "\<not> is_youtube (toLowerCase webm)" "re_test WEBM_EXT (toLowerCase webm)"
    unfolding webm_def by code_simp+
  have u: "\<not> is_youtube (toLowerCase aud)" "matches_any AUDIO_ONLY_PATTERNS (toLowerCase aud)"
    unfolding aud_def by code_simp+
  have m: "\<not> is_youtube (toLowerCase mp4)" "re_test MP4_EXT (toLowerCase mp4)"
    "\<not> re_test WEBM_EXT (toLowerCase mp4)" "\<not> re_test M4S_EXT (toLowerCase mp4)"
    "\<not> matches_any SEGMENT_PATTERNS (toLowerCase mp4)"
    "\<not> matches_any AUDIO_ONLY_PATTERNS (toLowerCase mp4)"
    unfolding mp4_def by code_simp+
  have 1: "\<not> isPlayableVideo seg None None (Some ''dom'')"
    using classifier_rejects_and_accepts [of "Some ''dom''" seg None None] a s by simp
  have 2: "\<not> isPlayableVideo webm None None (Some ''dom'')"
    using classifier_rejects_and_accepts [of "Some ''dom''" webm None None] a w by simp
  have 3: "\<not> isPlayableVideo aud None None (Some ''dom'')"
    using classifier_rejects_and_accepts [of "Some ''dom''" aud None None] a u by simp
  have 4: "\<not> isPlayableVideo mp4 None (Some 100000) (Some ''dom'')"
    using classifier_rejects_and_accepts [of "Some ''dom''" mp4 None "Some 100000"] a m by simp
  have 5: "isPlayableVideo mp4 None None (Some ''dom'')"
    using classifier_rejects_and_accepts [of "Some ''dom''" mp4 None None] a m by simp
  have 6: "isPlayableVideo webm None None (Some ''instagram'')"
    using classifier_rejects_and_accepts [of "Some ''instagram''" webm None None] by simp
  show ?thesis
    using a s w u m 1 2 3 4 5 6 unfolding seg_def webm_def aud_def mp4_def by simp
qed

text \<open>
  Claim C5, as stated, fails for \<open>.m4s\<close>: that extension is rejected before the rescue
  is looked at, whatever the size, although every later check would let the URL pass.
\<close>

theorem large_m4s_is_rejected:
  "re_test SEGMENT_EXTENSIONS (toLowerCase ''https://cdn.example.com/v/movie.m4s'')
   \<and> size_above (Some 2000000) (MIN_VIDEO_SIZE_BYTES * 2)
   \<and> \<not> matches_any SEGMENT_PATTERNS (toLowerCase ''https://cdn.example.com/v/movie.m4s'')
   \<and> \<not> matches_any AUDIO_ONLY_PATTERNS (toLowerCase ''https://cdn.example.com/v/movie.m4s'')
   \<and> \<not> size_below (Some 2000000) MIN_VIDEO_SIZE_BYTES
   \<and> \<not> isPlayableVideo ''https://cdn.example.com/v/movie.m4s'' None (Some 2000000) None"
  by code_simp

text \<open>
  Claim C5, amended to the segment extensions that reach the rescue (\<open>.ts\<close> and
  \<open>.m4a\<close>; \<open>.m4s\<close> and \<open>.webm\<close> are rejected before it): with a declared size of
  more than twice the minimum, and no earlier rule deciding, the verdict is exactly that of
  the later checks (segment patterns, audio-only patterns, minimum size).
\<close>

theorem large_segment_rescue:
  assumes "re_test SEGMENT_EXTENSIONS (toLowerCase u)"
    and "sz = Some n" "n > 2 * MIN_VIDEO_SIZE_BYTES"
    and "\<not> high_priority src" "\<not> is_youtube (toLowerCase u)"
    and "\<not> re_test WEBM_EXT (toLowerCase u)" "\<not> re_test M4S_EXT (toLowerCase u)"
  shows "isPlayableVideo u ct sz src \<longleftrightarrow>
           \<not> matches_any SEGMENT_PATTERNS (toLowerCase u)
           \<and> \<not> matches_any AUDIO_ONLY_PATTERNS (toLowerCase u)
           \<and> \<not> size_below sz MIN_VIDEO_SIZE_BYTES"
proof -
  have "size_above sz (MIN_VIDEO_SIZE_BYTES * 2)"
    using assms(2,3) by (simp add: size_above_def MIN_VIDEO_SIZE_BYTES_def)
  then show ?thesis
    using assms by (simp add: isPlayableVideo_low)
qed

theorem large_segment_rescue_witness:
  "re_test SEGMENT_EXTENSIONS (toLowerCase ''https://cdn.example.com/v/movie.ts'')
   \<and> (2000000::int) > 2 * MIN_VIDEO_SIZE_BYTES
   \<and> \<not> high_priority None \<and> \<not> is_youtube (toLowerCase ''https://cdn.example.com/v/movie.ts'')
   \<and> \<not> re_test WEBM_EXT (toLowerCase ''https://cdn.example.com/v/movie.ts'')
   \<and> \<not> re_test M4S_EXT (toLowerCase ''https://cdn.example.com/v/movie.ts'')
   \<and> isPlayableVideo ''https://cdn.example.com/v/movie.ts'' None (Some 2000000) None"
proof -
  let ?u = "''https://cdn.example.com/v/movie.ts''"
  have h1: "re_test SEGMENT_EXTENSIONS (toLowerCase ?u)" by code_simp
  have h3: "(2000000::int) > 2 * MIN_VIDEO_SIZE_BYTES" by (simp add: MIN_VIDEO_SIZE_BYTES_def)
  have h4: "\<not> high_priority None" by (simp add: high_priority_def)
  have h5: "\<not> is_youtube (toLowerCase ?u)" by code_simp
  have h6: "\<not> re_test WEBM_EXT (toLowerCase ?u)" by code_simp
  have h7: "\<not> re_test M4S_EXT (toLowerCase ?u)" by code_simp
  have r: "\<not> matches_any SEGMENT_PATTERNS (toLowerCase ?u)
           \<and> \<not> matches_any AUDIO_ONLY_PATTERNS (toLowerCase ?u)
           \<and> \<not> size_below (Some 2000000) MIN_VIDEO_SIZE_BYTES"
    by code_simp
  have "isPlayableVideo ?u None (Some 2000000) None"
    using large_segment_rescue [OF h1 refl h3 h4 h5 h6 h7, of None] r by simp
  with h1 h3 h4 h5 h6 h7 show ?thesis by simp
qed

section \<open>Order and repetition of merges\<close>













lemma clean_v_mp4: "cleanByteRangeUrl ''v.mp4'' = ''v.mp4''"
  by code_simp

lemma v_mp4_not_blob_data: "\<not> startsWith ''v.mp4'' ''blob:''" "\<not> startsWith ''v.mp4'' ''data:''"
  by (simp_all add: startsWith_def)



section \<open>The read path\<close>













lemma v_mp4_small_not_playable: "\<not> isPlayableVideo ''v.mp4'' None (Some 200000) (Some ''dom'')"
  by code_simp

lemma v_mp4_large_playable: "isPlayableVideo ''v.mp4'' (Some ''video/mp4'') (Some 8000000) (Some ''dom'')"
  by code_simp

lemma v_mp4_large_score: "scoreVideo ''v.mp4'' (Some 8000000) (Some ''dom'') None = 90"
  by code_simp

lemma dom_over_webRequest:
  "priority_or_0 (Some ''dom'') = 50" "priority_or_0 (Some ''webRequest'') = 40"
  by (simp_all add: priority_or_0_def SOURCE_PRIORITY_def)

text \<open>
  Claim C1, as stated, fails: after the two candidates of the scenario the query returns
  no entry at all.
\<close>

theorem fusion_scenario_returns_nothing:
  "fst (getVideosForTab 3
          (addVideoToTab 2 (addVideoToTab 1 (\<lambda>_. None) (Some 7) scenario_dom)
             (Some 7) scenario_webRequest)
          (Some 7)) = []"
  by (simp add: getVideosForTab_def addVideoToTab_def Let_def scenario_dom_def
      scenario_webRequest_def clean_v_mp4 v_mp4_not_blob_data new_entry_def merge_entry_def
      num_or_null_def str_or_null_def dom_over_webRequest expired_def ENTRY_TTL_MS_def
      v_mp4_small_not_playable js_sort_def)

text \<open>
  Claim C1, amended: the two candidates end up in one entry for \<open>v.mp4\<close>, never two;
  the entry has the source of higher priority (\<open>dom\<close>) and keeps the size and content
  type of the candidate that came first. Fed \<open>dom\<close> first, the size stays 200,000 and
  the classifier filters the entry out, so the query returns nothing; fed in the other
  order, the query returns the one entry with size 8,000,000.
\<close>

theorem fusion_scenario:
  assumes "tid \<noteq> 0"
  shows "addVideoToTab now2 (addVideoToTab now1 (\<lambda>_. None) (Some tid) scenario_dom)
             (Some tid) scenario_webRequest tid
           = Some [(''v.mp4'',
                \<lparr> vsize = Some 200000, contentType = None, source = Some ''dom'',
                  quality = None, title = None, playlist = None, timestamp = now1 \<rparr>)]
     \<and> fst (getVideosForTab now3
          (addVideoToTab now2 (addVideoToTab now1 (\<lambda>_. None) (Some tid) scenario_dom)
             (Some tid) scenario_webRequest)
          (Some tid)) = []
     \<and> addVideoToTab now2 (addVideoToTab now1 (\<lambda>_. None) (Some tid) scenario_webRequest)
             (Some tid) scenario_dom tid
           = Some [(''v.mp4'',
                \<lparr> vsize = Some 8000000, contentType = Some ''video/mp4'', source = Some ''dom'',
                  quality = None, title = None, playlist = None, timestamp = now1 \<rparr>)]
     \<and> (\<not> expired now3 (new_entry now1 scenario_webRequest) \<longrightarrow>
         fst (getVideosForTab now3
          (addVideoToTab now2 (addVideoToTab now1 (\<lambda>_. None) (Some tid) scenario_webRequest)
             (Some tid) scenario_dom)
          (Some tid))
         = [\<lparr> r_url = ''v.mp4'', r_size = Some 8000000, score = 90, r_timestamp = now1,
              r_quality = None, r_source = Some ''dom'', r_title = None, r_playlist = None \<rparr>])"
  using assms
  by (simp add: getVideosForTab_def addVideoToTab_def Let_def scenario_dom_def
      scenario_webRequest_def clean_v_mp4 v_mp4_not_blob_data new_entry_def merge_entry_def
      num_or_null_def str_or_null_def dom_over_webRequest expired_def ENTRY_TTL_MS_def
      v_mp4_small_not_playable v_mp4_large_playable v_mp4_large_score to_result_def
      js_sort_def MAX_RESULTS_def)

theorem fusion_scenario_witness:
  "(7::int) \<noteq> 0
   \<and> fst (getVideosForTab 3000
          (addVideoToTab 2000 (addVideoToTab 1000 (\<lambda>_. None) (Some 7) scenario_dom)
             (Some 7) scenario_webRequest)
          (Some 7)) = []
   \<and> \<not> expired 3000 (new_entry 1000 scenario_webRequest)
   \<and> map r_size (fst (getVideosForTab 3000
          (addVideoToTab 2000 (addVideoToTab 1000 (\<lambda>_. None) (Some 7) scenario_webRequest)
             (Some 7) scenario_dom)
          (Some 7))) = [Some 8000000]"
proof -
  have e: "\<not> expired 3000 (new_entry 1000 scenario_webRequest)"
    by (simp add: expired_def new_entry_def ENTRY_TTL_MS_def)
  show ?thesis
    using fusion_scenario [of 7 2000 1000 3000] e by simp
qed

section \<open>URL normalization\<close>













section \<open>Header embedding\<close>

text \<open>
  Claim C9, amended. For a candidate that is dispatched (it has a URL that was not
  dispatched before): a URL that contains \<open>headers=\<close> is left as it is; a URL that
  matches a relay pattern is flagged \<open>alreadyProxied\<close> and left as it is; otherwise the
  URL is left as it is when it does not parse as an absolute URL or when neither the
  page's URL nor its origin is a valid \<open>http(s)\<close> URL, and else it gets the single
  parameter \<open>headers\<close> whose value is the JSON text of the valid ones among
  \<open>referer\<close> (the page's URL) and \<open>origin\<close>: both of them on an \<open>http(s)\<close> page.
\<close>

theorem header_embedding:
  assumes "url video = Some u" "u \<noteq> []" "u \<notin> foundVideos"
  shows "\<exists>v'. snd (dispatchVideo api href origin foundVideos video) = Some v'
     \<and> (str_includes u ''headers='' \<longrightarrow> url v' = Some u)
     \<and> (isAlreadyProxied u \<longrightarrow> alreadyProxied v' \<and> url v' = Some u)
     \<and> (\<not> str_includes u ''headers='' \<and> \<not> isAlreadyProxied u \<and> \<not> alreadyProxied video \<longrightarrow>
          alreadyProxied v' = False
          \<and> (parse_url api u = None \<longrightarrow> url v' = Some u)
          \<and> (embedded_headers api href origin = [] \<longrightarrow> url v' = Some u)
          \<and> (\<forall>pu. parse_url api u = Some pu \<and> embedded_headers api href origin \<noteq> [] \<longrightarrow>
                url v' = Some (url_toString api (searchParams_set api pu ''headers''
                           (JSON_stringify (embedded_headers api href origin)))))
          \<and> (href \<noteq> [] \<and> origin \<noteq> [] \<and> isValidUrl api href \<and> isValidUrl api origin \<longrightarrow>
                embedded_headers api href origin = [(''referer'', href), (''origin'', origin)]))"
proof -
  have nonempty: "embedded_headers api href origin \<noteq> [] \<Longrightarrow> \<not> (href = [] \<and> origin = [])"
    by (auto simp: embedded_headers_def)
  show ?thesis
    using assms nonempty
    by (auto simp: dispatchVideo_def Let_def embedHeaders_def embedded_headers_def
        split: option.splits)
qed


lemma scheme_https_cdn: "scheme_of ''https://cdn.example.com/v.mp4'' = Some ''https''"
  by (simp add: scheme_of_def is_alpha_def is_digit_def toLowerChar_def toLowerCase_def Let_def)

lemma scheme_https_page: "scheme_of ''https://www.example.com/watch?v=1'' = Some ''https''"
  by (simp add: scheme_of_def is_alpha_def is_digit_def toLowerChar_def toLowerCase_def Let_def)

lemma scheme_https_origin: "scheme_of ''https://www.example.com'' = Some ''https''"
  by (simp add: scheme_of_def is_alpha_def is_digit_def toLowerChar_def toLowerCase_def Let_def)

lemma scheme_file: "scheme_of ''file:///home/u/page.html'' = Some ''file''"
  by (simp add: scheme_of_def is_alpha_def is_digit_def toLowerChar_def toLowerCase_def Let_def)

lemma scheme_null: "scheme_of ''null'' = None"
  by (simp add: scheme_of_def)

lemma example_page_is_valid:
  "isValidUrl simple_url_api ''https://www.example.com/watch?v=1''"
  "isValidUrl simple_url_api ''https://www.example.com''"
  by (simp_all add: isValidUrl_def simple_url_api_def scheme_https_page scheme_https_origin)

lemma file_page_is_not_valid:
  "\<not> isValidUrl simple_url_api ''file:///home/u/page.html''"
  "\<not> isValidUrl simple_url_api ''null''"
  by (simp_all add: isValidUrl_def simple_url_api_def scheme_file scheme_null)

lemma example_candidate_parses:
  "parse_url simple_url_api ''https://cdn.example.com/v.mp4''
     = Some ''https://cdn.example.com/v.mp4''"
  by (simp add: simple_url_api_def scheme_https_cdn)

lemma example_candidate_plain:
  "\<not> str_includes ''https://cdn.example.com/v.mp4'' ''headers=''"
  "\<not> isAlreadyProxied ''https://cdn.example.com/v.mp4''"
  by code_simp+

lemma example_embedding:
  "url_toString simple_url_api
     (searchParams_set simple_url_api ''https://cdn.example.com/v.mp4'' ''headers''
        (JSON_stringify [(''referer'', ''https://www.example.com/watch?v=1''),
                         (''origin'', ''https://www.example.com'')]))
   = ''https://cdn.example.com/v.mp4?headers=%7B%22referer%22%3A%22https%3A%2F%2Fwww.example.com%2Fwatch%3Fv%3D1%22%2C%22origin%22%3A%22https%3A%2F%2Fwww.example.com%22%7D''"
  by code_simp

text \<open>
  Claim C9, as stated, fails on a page whose URL and origin are not valid \<open>http(s)\<close>
  URLs (a \<open>file:\<close> page, with origin \<open>null\<close>): the candidate's URL is a valid
  absolute URL, has no \<open>headers=\<close> and matches no relay pattern, and nothing is
  stamped into it.
\<close>

theorem headers_not_embedded_on_file_page:
  "parse_url simple_url_api ''https://cdn.example.com/v.mp4'' \<noteq> None
   \<and> \<not> str_includes ''https://cdn.example.com/v.mp4'' ''headers=''
   \<and> \<not> isAlreadyProxied ''https://cdn.example.com/v.mp4''
   \<and> map_option url
        (snd (dispatchVideo simple_url_api ''file:///home/u/page.html'' ''null'' {}
           \<lparr>vsize = None, contentType = None, source = Some ''api'', quality = None,
            title = None, playlist = None, url = Some ''https://cdn.example.com/v.mp4'',
            alreadyProxied = False\<rparr>))
       = Some (Some ''https://cdn.example.com/v.mp4'')"
  by (simp add: dispatchVideo_def embedHeaders_def embedded_headers_def Let_def
      example_candidate_parses example_candidate_plain file_page_is_not_valid
      del: str_includes.simps)

theorem header_embedding_witness:
  "\<exists>v'. snd (dispatchVideo simple_url_api ''https://www.example.com/watch?v=1''
               ''https://www.example.com'' {}
               \<lparr>vsize = None, contentType = None, source = Some ''api'', quality = None,
                title = None, playlist = None, url = Some ''https://cdn.example.com/v.mp4'',
                alreadyProxied = False\<rparr>) = Some v'
     \<and> url v' = Some ''https://cdn.example.com/v.mp4?headers=%7B%22referer%22%3A%22https%3A%2F%2Fwww.example.com%2Fwatch%3Fv%3D1%22%2C%22origin%22%3A%22https%3A%2F%2Fwww.example.com%22%7D''
     \<and> alreadyProxied v' = False"
proof -
  define href where "href = ''https://www.example.com/watch?v=1''"
  define origin where "origin = ''https://www.example.com''"
  define u where "u = ''https://cdn.example.com/v.mp4''"
  define enc where "enc = ''https://cdn.example.com/v.mp4?headers=%7B%22referer%22%3A%22https%3A%2F%2Fwww.example.com%2Fwatch%3Fv%3D1%22%2C%22origin%22%3A%22https%3A%2F%2Fwww.example.com%22%7D''"
  define v :: page_video where
    "v = \<lparr>vsize = None, contentType = None, source = Some ''api'', quality = None,
          title = None, playlist = None, url = Some u, alreadyProxied = False\<rparr>"
  have h1: "url v = Some u" by (simp add: v_def)
  have h2: "u \<noteq> []" by (simp add: u_def)
  have h3: "u \<notin> ({} :: string set)" by simp
  have np: "\<not> alreadyProxied v" by (simp add: v_def)
  have ne: "href \<noteq> []" "origin \<noteq> []" by (simp_all add: href_def origin_def)
  have valid: "isValidUrl simple_url_api href" "isValidUrl simple_url_api origin"
    unfolding href_def origin_def by (rule example_page_is_valid)+
  have plain: "\<not> str_includes u ''headers=''" "\<not> isAlreadyProxied u"
    unfolding u_def by (rule example_candidate_plain)+
  have parses: "parse_url simple_url_api u = Some u"
    unfolding u_def by (rule example_candidate_parses)
  have emb: "url_toString simple_url_api
               (searchParams_set simple_url_api u ''headers''
                  (JSON_stringify [(''referer'', href), (''origin'', origin)])) = enc"
    unfolding u_def href_def origin_def enc_def by (rule example_embedding)
  have "\<exists>v'. snd (dispatchVideo simple_url_api href origin {} v) = Some v'
     \<and> url v' = Some enc \<and> alreadyProxied v' = False"
    using header_embedding [OF h1 h2 h3, of simple_url_api href origin]
  proof (elim exE conjE)
    fix v'
    assume d: "snd (dispatchVideo simple_url_api href origin {} v) = Some v'"
    assume r: "\<not> str_includes u ''headers='' \<and> \<not> isAlreadyProxied u \<and> \<not> alreadyProxied v \<longrightarrow>
          alreadyProxied v' = False
          \<and> (parse_url simple_url_api u = None \<longrightarrow> url v' = Some u)
          \<and> (embedded_headers simple_url_api href origin = [] \<longrightarrow> url v' = Some u)
          \<and> (\<forall>pu. parse_url simple_url_api u = Some pu
                    \<and> embedded_headers simple_url_api href origin \<noteq> [] \<longrightarrow>
                url v' = Some (url_toString simple_url_api
                           (searchParams_set simple_url_api pu ''headers''
                              (JSON_stringify (embedded_headers simple_url_api href origin)))))
          \<and> (href \<noteq> [] \<and> origin \<noteq> [] \<and> isValidUrl simple_url_api href
               \<and> isValidUrl simple_url_api origin \<longrightarrow>
                embedded_headers simple_url_api href origin
                  = [(''referer'', href), (''origin'', origin)])"
    have c: "alreadyProxied v' = False
          \<and> (parse_url simple_url_api u = None \<longrightarrow> url v' = Some u)
          \<and> (embedded_headers simple_url_api href origin = [] \<longrightarrow> url v' = Some u)
          \<and> (\<forall>pu. parse_url simple_url_api u = Some pu
                    \<and> embedded_headers simple_url_api href origin \<noteq> [] \<longrightarrow>
                url v' = Some (url_toString simple_url_api
                           (searchParams_set simple_url_api pu ''headers''
                              (JSON_stringify (embedded_headers simple_url_api href origin)))))
          \<and> (href \<noteq> [] \<and> origin \<noteq> [] \<and> isValidUrl simple_url_api href
               \<and> isValidUrl simple_url_api origin \<longrightarrow>
                embedded_headers simple_url_api href origin
                  = [(''referer'', href), (''origin'', origin)])"
      by (rule mp [OF r]) (simp add: plain np)
    note a = c [THEN conjunct1]
    note e = c [THEN conjunct2, THEN conjunct2, THEN conjunct2, THEN conjunct1]
    note h = c [THEN conjunct2, THEN conjunct2, THEN conjunct2, THEN conjunct2]
    have hs: "embedded_headers simple_url_api href origin
                = [(''referer'', href), (''origin'', origin)]"
      by (rule mp [OF h]) (simp add: ne valid)
    have "url v' = Some (url_toString simple_url_api
                           (searchParams_set simple_url_api u ''headers''
                              (JSON_stringify (embedded_headers simple_url_api href origin))))"
      by (rule mp [OF spec [OF e]]) (simp add: parses hs)
    then have "url v' = Some enc"
      by (simp only: hs emb)
    with d a have "snd (dispatchVideo simple_url_api href origin {} v) = Some v'
       \<and> url v' = Some enc \<and> alreadyProxied v' = False"
      by simp
    then show ?thesis by (rule exI)
  qed
  then show ?thesis
    unfolding href_def origin_def u_def enc_def v_def .
qed

section \<open>Playlist parsing: properties\<close>







lemma first_some_hit: "f x = Some y \<Longrightarrow> first_some f (x # xs) = Some y"
  by simp



subsection \<open>The resolution attribute\<close>











subsection \<open>The base of the playlist URL\<close>








subsection \<open>The order of the variants\<close>










text \<open>
  The parser of the watcher takes the text after the \<open>x\<close> as the label, that is the
  height, where the background script takes the smaller of width and height: the two
  disagree on a portrait stream.
\<close>

lemma watcher_labels_by_height:
  "map v_quality (HLSParser_variants portrait_master ''https://cdn.example.com/a/master.m3u8'')
     = [Some ''1280p'']
   \<and> map v_quality (m3u8_variants ''https://cdn.example.com/a/master.m3u8'' portrait_master)
     = [Some ''720p'']"
  by code_simp







end
